theory Spec2Isabelle
  imports Main "HOL-Library.Sublist"
begin

section \<open>Data model\<close>

text \<open>
  The development embeds \<open>ClusterCleanup\<close> (the compiled orchestrator) and the earlier
  \<open>ECSClusterManager\<close> of \<open>src/index.ts\<close>. Remote replies are values of the
  AWS shapes the code reads; each reply is represented by the one member the code takes
  from it (\<open>r.service\<close>, \<open>response.clusters\<close>, \<open>Stacks\<close>, ...), and is assumed to
  carry that member.
\<close>

type_synonym arn = string

datatype launch_type = EC2 | FARGATE

text \<open>
  A JavaScript error value: \<open>new Error(message)\<close>, or the engine's \<open>TypeError\<close> raised
  by reading a member of \<open>undefined\<close> (its message depends on the engine and is left out).
\<close>

datatype js_error = Error string | TypeError

record cluster_desc =
  clusterName :: string
  status :: string

record stack =
  StackId :: string
  StackName :: string

record service =
  serviceArn :: arn
  serviceName :: string
  desiredCount :: nat

record task =
  taskArn :: arn

record container_instance =
  containerInstanceArn :: arn

record stack_event =
  EventId :: string
  LogicalResourceId :: string
  ResourceStatus :: string

text \<open>
  Modelled from the spec: the module \<open>.\<close> that exports \<open>ClusterCleanupEvents\<close> and
  \<open>ClusterCleanupEventEmitter\<close> is not among the sources. The event kinds and their
  payloads are those of the spec's event taxonomy; the emitter is a channel that keeps the
  events in emission order. \<open>clusterDeleted\<close> carries what \<open>deleteCluster\<close> returned,
  which is \<open>undefined\<close> (\<open>None\<close>) when that call failed.
\<close>

datatype event =
    E_start string
  | E_stackFound stack
  | E_servicesFound "arn list"
  | E_servicesScaledDown "service list"
  | E_tasksFound "arn list"
  | E_tasksStopped "task list"
  | E_instancesFound "arn list"
  | E_instancesDeregistered "container_instance list"
  | E_servicesDeleted "service list"
  | E_stackDeletionStarted string
  | E_stackDeletionDone string
  | E_resourceDeleted stack_event
  | E_clusterDeleted "cluster_desc option"
  | E_done string
  | E_doneWithError js_error
  | E_error js_error

text \<open>The requests sent to the two control planes, with their parameters.\<close>

datatype call =
    DescribeClusters "string list"
  | ListServices string launch_type
  | UpdateService string arn nat
  | ListTasks string
  | StopTask arn string string
  | ListContainerInstances string
  | DeregisterContainerInstance string arn bool
  | DeleteService string string
  | DeleteCluster string
  | DescribeStacks string
  | DeleteStack string
  | DescribeStackEvents string
  | WaitForStackDeleteComplete string

datatype console_entry =
    Logged_error js_error
  | Logged_services "service list"
  | Logged_duration string

record options =
  opt_verbose :: "bool option"

text \<open>
  Everything a run can change: the events emitted so far, the remote requests issued so
  far, the console, the emitter's \<open>verbose\<close> member and the callbacks queued with
  \<open>setImmediate\<close>.
\<close>

record world =
  trace :: "event list"
  calls :: "call list"
  console :: "console_entry list"
  verbose :: "bool option"
  immediates :: "(string \<times> options) list"

definition world0 :: world where
  "world0 = \<lparr>trace = [], calls = [], console = [], verbose = None, immediates = []\<rparr>"

text \<open>
  The remote control planes (\<open>this.ecs\<close>, \<open>this.cloudFormation\<close>): what each request
  is answered with, a rejection (\<open>Inl\<close>) or the reply. The stack's event history changes
  while the stack is deleted, so \<open>describeStackEvents\<close> is also given the number of the
  periodic check that asks. \<open>waitFor\<close> answers with the time (in milliseconds after the
  poller started) at which the waiter settles, and how. Any other request is answered the
  same way whenever it is repeated.
\<close>

record env =
  ecs_describeClusters :: "string list \<Rightarrow> js_error + cluster_desc list"
  ecs_listServices :: "string \<Rightarrow> launch_type \<Rightarrow> js_error + arn list"
  ecs_updateService :: "string \<Rightarrow> arn \<Rightarrow> nat \<Rightarrow> js_error + service"
  ecs_listTasks :: "string \<Rightarrow> js_error + arn list"
  ecs_stopTask :: "arn \<Rightarrow> string \<Rightarrow> string \<Rightarrow> js_error + task"
  ecs_listContainerInstances :: "string \<Rightarrow> js_error + arn list"
  ecs_deregisterContainerInstance :: "string \<Rightarrow> arn \<Rightarrow> bool \<Rightarrow> js_error + container_instance"
  ecs_deleteService :: "string \<Rightarrow> string \<Rightarrow> js_error + service"
  ecs_deleteCluster :: "string \<Rightarrow> js_error + cluster_desc"
  cfn_describeStacks :: "string \<Rightarrow> js_error + stack list"
  cfn_deleteStack :: "string \<Rightarrow> js_error + unit"
  cfn_describeStackEvents :: "string \<Rightarrow> nat \<Rightarrow> js_error + stack_event list"
  cfn_waitFor :: "string \<Rightarrow> nat \<times> (js_error + stack list)"

section \<open>The instance and its constructor\<close>

record config =
  enableFargate :: "bool option"

datatype client = ECS_client "config option" | CloudFormation_client "config option"

datatype event_source = ClusterCleanupEventEmitter | EventEmitter

text \<open>A member that has not been assigned yet is \<open>None\<close> (JavaScript's \<open>undefined\<close>).\<close>

record ClusterCleanup =
  ecs :: "client option"
  cloudFormation :: "client option"
  launchTypes :: "launch_type list option"
  events :: "event_source option"

definition fresh_object :: ClusterCleanup where
  "fresh_object = \<lparr>ecs = None, cloudFormation = None, launchTypes = None, events = None\<rparr>"

text \<open>
  \<open>constructor(config)\<close>: four assignments, then \<open>config.enableFargate\<close> is read. The
  result is the object as the constructor left it and how the constructor ended; on
  \<open>Inl\<close> the caller of \<open>new\<close> receives the error and no object.
\<close>

definition ClusterCleanup_constructor :: "config option \<Rightarrow> ClusterCleanup \<times> (js_error + unit)" where
  "ClusterCleanup_constructor cfg =
     (let this = fresh_object;
          this = this\<lparr>ecs := Some (ECS_client cfg)\<rparr>;
          this = this\<lparr>cloudFormation := Some (CloudFormation_client cfg)\<rparr>;
          this = this\<lparr>launchTypes := Some [EC2]\<rparr>;
          this = this\<lparr>events := Some ClusterCleanupEventEmitter\<rparr>
      in case cfg of
           None \<Rightarrow> (this, Inl TypeError)
         | Some c \<Rightarrow>
             if enableFargate c = Some True
             then (this\<lparr>launchTypes := map_option (\<lambda>l. l @ [FARGATE]) (launchTypes this)\<rparr>, Inr ())
             else (this, Inr ()))"

section \<open>Event channel, request log, Promise.all\<close>

definition emit :: "event \<Rightarrow> world \<Rightarrow> world" where
  "emit e w = w\<lparr>trace := trace w @ [e]\<rparr>"

definition issue :: "call \<Rightarrow> world \<Rightarrow> world" where
  "issue c w = w\<lparr>calls := calls w @ [c]\<rparr>"

text \<open>
  \<open>Promise.all\<close> over replies that have all been requested already: the list of values
  when every promise is fulfilled, else one rejection. JavaScript reports the rejection
  that settles first; the model takes the first one in request order, which is the same
  whenever a single request fails.
\<close>

fun promise_all :: "(js_error + 'a) list \<Rightarrow> js_error + 'a list" where
  "promise_all [] = Inr []"
| "promise_all (Inl e # rs) = Inl e"
| "promise_all (Inr v # rs) = (case promise_all rs of Inl e \<Rightarrow> Inl e | Inr vs \<Rightarrow> Inr (v # vs))"

section \<open>Resource gateway\<close>

definition describeCluster :: "env \<Rightarrow> string \<Rightarrow> world \<Rightarrow> cluster_desc list \<times> world" where
  "describeCluster env cluster w =
     (let w1 = issue (DescribeClusters [cluster]) w
      in case ecs_describeClusters env [cluster] of
           Inr clusters \<Rightarrow> (clusters, w1)
         | Inl e \<Rightarrow> ([], emit (E_error e) w1))"

definition doesClusterExist :: "env \<Rightarrow> string \<Rightarrow> world \<Rightarrow> bool \<times> world" where
  "doesClusterExist env cluster w =
     (let (clusters, w1) = describeCluster env cluster w
      in (length (filter (\<lambda>c. clusterName c = cluster)
                   (filter (\<lambda>c. status c \<noteq> ''INACTIVE'') clusters)) \<noteq> 0, w1))"

definition describeStack :: "env \<Rightarrow> string \<Rightarrow> world \<Rightarrow> stack option \<times> world" where
  "describeStack env cluster w =
     (let w1 = issue (DescribeStacks (''EC2ContainerService-'' @ cluster)) w
      in case cfn_describeStacks env (''EC2ContainerService-'' @ cluster) of
           Inr stacks \<Rightarrow> ((case stacks of [] \<Rightarrow> None | s # _ \<Rightarrow> Some s), w1)
         | Inl e \<Rightarrow> (None, emit (E_error e) w1))"

definition getAllServicesFor :: "env \<Rightarrow> ClusterCleanup \<Rightarrow> string \<Rightarrow> world \<Rightarrow> arn list \<times> world" where
  "getAllServicesFor env this cluster w =
     (case launchTypes this of
        None \<Rightarrow> ([], emit (E_error TypeError) w)
      | Some lts \<Rightarrow>
          (let w1 = fold (\<lambda>l. issue (ListServices cluster l)) lts w
           in case promise_all (map (\<lambda>l. ecs_listServices env cluster l) lts) of
                Inr listServiceResponses \<Rightarrow> (foldl (\<lambda>acc r. acc @ r) [] listServiceResponses, w1)
              | Inl e \<Rightarrow> ([], emit (E_error e) w1)))"

definition scaleServicesToZero :: "env \<Rightarrow> string \<Rightarrow> arn list \<Rightarrow> world \<Rightarrow> service list \<times> world" where
  "scaleServicesToZero env cluster serviceArns w =
     (let w1 = fold (\<lambda>s. issue (UpdateService cluster s 0)) serviceArns w
      in case promise_all (map (\<lambda>s. ecs_updateService env cluster s 0) serviceArns) of
           Inr scaleServiceResponses \<Rightarrow> (foldl (\<lambda>acc r. acc @ [r]) [] scaleServiceResponses, w1)
         | Inl e \<Rightarrow> ([], emit (E_error e) w1))"

definition getAllTasksFor :: "env \<Rightarrow> string \<Rightarrow> world \<Rightarrow> arn list \<times> world" where
  "getAllTasksFor env cluster w =
     (let w1 = issue (ListTasks cluster) w
      in case ecs_listTasks env cluster of
           Inr taskArns \<Rightarrow> (taskArns, w1)
         | Inl e \<Rightarrow> ([], emit (E_error e) w1))"

definition stopTasks :: "env \<Rightarrow> string \<Rightarrow> arn list \<Rightarrow> world \<Rightarrow> task list \<times> world" where
  "stopTasks env cluster taskArns w =
     (let reason = ''Cluster being deleted'';
          w1 = fold (\<lambda>t. issue (StopTask t cluster reason)) taskArns w
      in case promise_all (map (\<lambda>t. ecs_stopTask env t cluster reason) taskArns) of
           Inr stopTaskResponses \<Rightarrow> (map (\<lambda>r. r) stopTaskResponses, w1)
         | Inl e \<Rightarrow> ([], emit (E_error e) w1))"

definition getAllInstancesFor :: "env \<Rightarrow> string \<Rightarrow> world \<Rightarrow> arn list \<times> world" where
  "getAllInstancesFor env cluster w =
     (let w1 = issue (ListContainerInstances cluster) w
      in case ecs_listContainerInstances env cluster of
           Inr containerInstanceArns \<Rightarrow> (containerInstanceArns, w1)
         | Inl e \<Rightarrow> ([], emit (E_error e) w1))"

definition deregisterContainerInstances ::
    "env \<Rightarrow> string \<Rightarrow> arn list \<Rightarrow> world \<Rightarrow> container_instance list \<times> world" where
  "deregisterContainerInstances env cluster instances w =
     (let w1 = fold (\<lambda>i. issue (DeregisterContainerInstance cluster i True)) instances w
      in case promise_all (map (\<lambda>i. ecs_deregisterContainerInstance env cluster i True) instances) of
           Inr deregisterResponses \<Rightarrow> (foldl (\<lambda>acc r. acc @ [r]) [] deregisterResponses, w1)
         | Inl e \<Rightarrow> ([], emit (E_error e) w1))"

definition deleteAllServices :: "env \<Rightarrow> string \<Rightarrow> string list \<Rightarrow> world \<Rightarrow> service list \<times> world" where
  "deleteAllServices env cluster services w =
     (let w1 = fold (\<lambda>s. issue (DeleteService cluster s)) services w
      in case promise_all (map (\<lambda>s. ecs_deleteService env cluster s) services) of
           Inr deleteServicesResponses \<Rightarrow> (foldl (\<lambda>acc r. acc @ [r]) [] deleteServicesResponses, w1)
         | Inl e \<Rightarrow> ([], emit (E_error e) w1))"

text \<open>On failure \<open>deleteStack\<close> returns the error as an ordinary value; its caller ignores both.\<close>

definition deleteStack :: "env \<Rightarrow> string \<Rightarrow> world \<Rightarrow> (js_error + unit) \<times> world" where
  "deleteStack env cluster w =
     (let w1 = issue (DeleteStack (''EC2ContainerService-'' @ cluster)) w
      in case cfn_deleteStack env (''EC2ContainerService-'' @ cluster) of
           Inr deleteStackResponse \<Rightarrow> (Inr deleteStackResponse, w1)
         | Inl e \<Rightarrow> (Inl e, emit (E_error e) w1))"

definition describeStackEvents :: "env \<Rightarrow> string \<Rightarrow> nat \<Rightarrow> world \<Rightarrow> stack_event list \<times> world" where
  "describeStackEvents env cluster k w =
     (let w1 = issue (DescribeStackEvents (''EC2ContainerService-'' @ cluster)) w
      in case cfn_describeStackEvents env (''EC2ContainerService-'' @ cluster) k of
           Inr stackEvents \<Rightarrow> (stackEvents, w1)
         | Inl e \<Rightarrow> ([], emit (E_error e) w1))"

text \<open>
  \<open>deleteCluster\<close> has no \<open>return\<close> in its \<open>catch\<close>: after emitting \<open>doneWithError\<close> it
  returns \<open>undefined\<close>.
\<close>

definition deleteCluster :: "env \<Rightarrow> string \<Rightarrow> world \<Rightarrow> cluster_desc option \<times> world" where
  "deleteCluster env cluster w =
     (let w1 = issue (DeleteCluster cluster) w
      in case ecs_deleteCluster env cluster of
           Inr c \<Rightarrow> (Some c, w1)
         | Inl e \<Rightarrow> (None, emit (E_doneWithError e) w1))"

section \<open>Bounded poller\<close>

definition TEN_SECONDS :: nat where
  "TEN_SECONDS = 10 * 1000"

definition TEN_MINUTES :: nat where
  "TEN_MINUTES = 10 * 60 * 1000"

text \<open>
  One run of \<open>pollEvent\<close>, the callback of the interval timer. \<open>alreadyDeleted\<close> is the
  array captured by the closure. Both \<open>filter\<close> calls have produced their arrays before
  \<open>forEach\<close> starts to push and emit, so the second filter sees \<open>alreadyDeleted\<close> as it
  was when the reply arrived. \<open>report\<close> is the callback given to \<open>forEach\<close>: it pushes
  the identifier and emits the event.
\<close>

definition report :: "stack_event \<Rightarrow> arn list \<times> world \<Rightarrow> arn list \<times> world" where
  "report e st = (fst st @ [LogicalResourceId e], emit (E_resourceDeleted e) (snd st))"

definition pollEvent :: "env \<Rightarrow> string \<Rightarrow> nat \<Rightarrow> arn list \<times> world \<Rightarrow> arn list \<times> world" where
  "pollEvent env cluster k st =
     (let (alreadyDeleted, w) = st;
          (stackEvents, w1) = describeStackEvents env cluster k w;
          selected = filter (\<lambda>e. LogicalResourceId e \<notin> set alreadyDeleted)
                       (filter (\<lambda>e. ResourceStatus e = ''DELETE_COMPLETE'') stackEvents)
      in fold report selected (alreadyDeleted, w1))"

text \<open>
  The interval timer is due at the multiples of \<open>TEN_SECONDS\<close>. \<open>ticks_between a b\<close>
  numbers the checks due at a time \<open>t\<close> with \<open>a \<le> t < b\<close>: a check due at the very
  instant at which the race is decided counts as coming after the decision. A check is
  taken to be answered at once, before the next timer or the waiter fires.
\<close>

definition ticks_between :: "nat \<Rightarrow> nat \<Rightarrow> nat list" where
  "ticks_between a b =
     filter (\<lambda>k. a \<le> k * TEN_SECONDS \<and> k * TEN_SECONDS < b) [1 ..< Suc (b div TEN_SECONDS)]"

text \<open>
  \<open>pollCloudFormationForChanges\<close>: the interval timer, the timeout timer and the waiter
  are started; the first of waiter and timeout to settle decides the race. The result is
  the race's outcome, the timer state left behind and the world. The timer state is the
  closure's \<open>alreadyDeleted\<close> with the checks that are still going to run:
  \<^item> waiter fulfilled first: its \<open>then\<close> callback clears both timers, no check is left;
  \<^item> timeout first: its callback clears the interval, no check is left;
  \<^item> waiter rejected first: the \<open>then\<close> callback does not run and nothing is cleared, so
    the checks go on until the timeout callback clears the interval at \<open>TEN_MINUTES\<close>.
\<close>

definition pollCloudFormationForChanges ::
    "env \<Rightarrow> string \<Rightarrow> stack \<Rightarrow> world \<Rightarrow> (js_error + stack list) \<times> (arn list \<times> nat list) \<times> world" where
  "pollCloudFormationForChanges env cluster stack w =
     (let w1 = issue (WaitForStackDeleteComplete (StackId stack)) w;
          (settled, outcome) = cfn_waitFor env (StackId stack);
          decided = min settled TEN_MINUTES;
          (alreadyDeleted, w2) = fold (pollEvent env cluster) (ticks_between 0 decided) ([], w1)
      in if settled < TEN_MINUTES
         then (case outcome of
                 Inr stacks \<Rightarrow> (Inr stacks, (alreadyDeleted, []), w2)
               | Inl e \<Rightarrow> (Inl e, (alreadyDeleted, ticks_between settled TEN_MINUTES), w2))
         else (Inl (Error ''CloudFormation stack deletion timed out!''), (alreadyDeleted, []), w2))"

section \<open>Orchestrator\<close>

text \<open>
  The line written with \<open>console.log\<close> in verbose mode; the measured duration is wall-clock
  time and is not part of the entry.
\<close>

definition log_duration :: "options \<Rightarrow> string \<Rightarrow> world \<Rightarrow> world" where
  "log_duration options cluster w =
     (if opt_verbose options = Some True
      then w\<lparr>console := console w @ [Logged_duration cluster]\<rparr> else w)"

text \<open>
  \<open>deleteHelper\<close>, statement by statement. The second component of the result is the timer
  state the poller left behind (nothing when the poller did not run). \<open>services\<close>,
  \<open>tasks\<close> and \<open>instances\<close> stay \<open>undefined\<close> when nothing was found; they are read
  again only under the same test, so the model puts the empty list there.
\<close>

definition deleteHelper ::
    "env \<Rightarrow> ClusterCleanup \<Rightarrow> string \<Rightarrow> options \<Rightarrow> world \<Rightarrow> world \<times> (arn list \<times> nat list)" where
  "deleteHelper env this cluster options w0 =
     (let w1 = emit (E_start cluster) w0;
          (exists, w2) = doesClusterExist env cluster w1
      in if \<not> exists
         then (emit (E_doneWithError
                       (Error (''Cluster '' @ cluster @ '' does not exist in the region specified''))) w2,
               ([], []))
         else
          (let (stack, w3) = describeStack env cluster w2;
               w4 = (case stack of Some s \<Rightarrow> emit (E_stackFound s) w3 | None \<Rightarrow> w3);
               (foundServices, w5) = getAllServicesFor env this cluster w4;
               (services, w6) =
                  (if length foundServices > 0
                   then (let (scaled, wa) = scaleServicesToZero env cluster foundServices
                                              (emit (E_servicesFound foundServices) w5)
                         in (scaled, emit (E_servicesScaledDown scaled) wa))
                   else ([], w5));
               (foundTasks, w7) = getAllTasksFor env cluster w6;
               (tasks, w8) =
                  (if length foundTasks > 0
                   then (let (stopped, wa) = stopTasks env cluster foundTasks
                                               (emit (E_tasksFound foundTasks) w7)
                         in (stopped, emit (E_tasksStopped stopped) wa))
                   else ([], w7));
               (foundInstances, w9) = getAllInstancesFor env cluster w8;
               (instances, w10) =
                  (if length foundInstances > 0
                   then (let (gone, wa) = deregisterContainerInstances env cluster foundInstances
                                            (emit (E_instancesFound foundInstances) w9)
                         in (gone, emit (E_instancesDeregistered gone) wa))
                   else ([], w9));
               w11 = (if length foundServices > 0
                      then emit (E_servicesDeleted services)
                             (snd (deleteAllServices env cluster (map serviceName services) w10))
                      else w10)
           in case stack of
                Some s \<Rightarrow>
                  (let w12 = snd (deleteStack env cluster w11);
                       w13 = emit (E_stackDeletionStarted (StackId s)) w12;
                       (raced, timers, w14) = pollCloudFormationForChanges env cluster s w13
                   in case raced of
                        Inr stacks \<Rightarrow>
                          (let w15 = emit (E_stackDeletionDone (StackId s)) w14;
                               (deletedCluster, w16) = deleteCluster env cluster w15;
                               w17 = emit (E_clusterDeleted deletedCluster) w16;
                               w18 = emit (E_done cluster) w17
                           in (log_duration options cluster w18, timers))
                      | Inl e \<Rightarrow> (emit (E_doneWithError e) w14, timers))
              | None \<Rightarrow>
                  (let (deletedCluster, w16) = deleteCluster env cluster w11;
                       w17 = emit (E_clusterDeleted deletedCluster) w16;
                       w18 = emit (E_done cluster) w17
                   in (log_duration options cluster w18, ([], [])))))"

text \<open>
  The last statement of \<open>deleteHelper\<close> (the stack branch, or the direct deletion of the
  cluster), as a notation for stating facts about it.
\<close>

abbreviation last_statement ::
    "env \<Rightarrow> string \<Rightarrow> options \<Rightarrow> stack option \<Rightarrow> world \<Rightarrow> world \<times> (arn list \<times> nat list)" where
  "last_statement env cluster options stack w11 \<equiv>
     (case stack of
        Some s \<Rightarrow>
          (let w12 = snd (deleteStack env cluster w11);
               w13 = emit (E_stackDeletionStarted (StackId s)) w12;
               (raced, timers, w14) = pollCloudFormationForChanges env cluster s w13
           in case raced of
                Inr stacks \<Rightarrow>
                  (let w15 = emit (E_stackDeletionDone (StackId s)) w14;
                       (deletedCluster, w16) = deleteCluster env cluster w15;
                       w17 = emit (E_clusterDeleted deletedCluster) w16;
                       w18 = emit (E_done cluster) w17
                   in (log_duration options cluster w18, timers))
              | Inl e \<Rightarrow> (emit (E_doneWithError e) w14, timers))
      | None \<Rightarrow>
          (let (deletedCluster, w16) = deleteCluster env cluster w11;
               w17 = emit (E_clusterDeleted deletedCluster) w16;
               w18 = emit (E_done cluster) w17
           in (log_duration options cluster w18, ([], []))))"

text \<open>
  A whole pipeline run: \<open>deleteHelper\<close>, then the periodic checks that were still armed
  when it returned.
\<close>

definition run_pipeline :: "env \<Rightarrow> ClusterCleanup \<Rightarrow> string \<Rightarrow> options \<Rightarrow> world \<Rightarrow> world" where
  "run_pipeline env this cluster options w =
     (let (w1, (alreadyDeleted, ticks)) = deleteHelper env this cluster options w
      in snd (fold (pollEvent env cluster) ticks (alreadyDeleted, w1)))"



section \<open>The earlier manager of src/index.ts\<close>

record ECSClusterManager =
  mgr_ecs :: "client option"
  mgr_launchTypes :: "launch_type list option"

definition ECSClusterManager_constructor ::
    "config option \<Rightarrow> ECSClusterManager \<times> (js_error + unit)" where
  "ECSClusterManager_constructor cfg =
     (let this = \<lparr>mgr_ecs = None, mgr_launchTypes = None\<rparr>;
          this = this\<lparr>mgr_ecs := Some (ECS_client cfg)\<rparr>;
          this = this\<lparr>mgr_launchTypes := Some [EC2]\<rparr>
      in case cfg of
           None \<Rightarrow> (this, Inl TypeError)
         | Some c \<Rightarrow>
             if enableFargate c = Some True
             then (this\<lparr>mgr_launchTypes := map_option (\<lambda>l. l @ [FARGATE]) (mgr_launchTypes this)\<rparr>, Inr ())
             else (this, Inr ()))"




section \<open>Notions used to state the claims\<close>

datatype kind =
    K_start | K_stackFound | K_servicesFound | K_servicesScaledDown | K_tasksFound
  | K_tasksStopped | K_instancesFound | K_instancesDeregistered | K_servicesDeleted
  | K_stackDeletionStarted | K_stackDeletionDone | K_resourceDeleted | K_clusterDeleted
  | K_done | K_doneWithError | K_error

fun kind_of :: "event \<Rightarrow> kind" where
  "kind_of (E_start _) = K_start"
| "kind_of (E_stackFound _) = K_stackFound"
| "kind_of (E_servicesFound _) = K_servicesFound"
| "kind_of (E_servicesScaledDown _) = K_servicesScaledDown"
| "kind_of (E_tasksFound _) = K_tasksFound"
| "kind_of (E_tasksStopped _) = K_tasksStopped"
| "kind_of (E_instancesFound _) = K_instancesFound"
| "kind_of (E_instancesDeregistered _) = K_instancesDeregistered"
| "kind_of (E_servicesDeleted _) = K_servicesDeleted"
| "kind_of (E_stackDeletionStarted _) = K_stackDeletionStarted"
| "kind_of (E_stackDeletionDone _) = K_stackDeletionDone"
| "kind_of (E_resourceDeleted _) = K_resourceDeleted"
| "kind_of (E_clusterDeleted _) = K_clusterDeleted"
| "kind_of (E_done _) = K_done"
| "kind_of (E_doneWithError _) = K_doneWithError"
| "kind_of (E_error _) = K_error"


text \<open>The launch-type scopes named by the requests of a log, in order.\<close>

fun scope_of :: "call \<Rightarrow> launch_type list" where
  "scope_of (ListServices _ l) = [l]"
| "scope_of _ = []"

definition scopes_queried :: "call list \<Rightarrow> launch_type list" where
  "scopes_queried cs = concat (map scope_of cs)"

text \<open>
  What every statement of \<open>deleteHelper\<close> before the last one leaves alone: the console,
  the requests that delete a cluster, and the \<open>clusterDeleted\<close> events.
\<close>

fun is_cluster_deletion :: "call \<Rightarrow> bool" where
  "is_cluster_deletion (DeleteCluster _) = True"
| "is_cluster_deletion _ = False"

definition untouched :: "world \<Rightarrow> console_entry list \<times> call list \<times> event list" where
  "untouched w = (console w, filter is_cluster_deletion (calls w),
                  filter (\<lambda>e. kind_of e = K_clusterDeleted) (trace w))"

text \<open>The logical resource identifiers reported by the \<open>resourceDeleted\<close> events of a list.\<close>

fun reported_id :: "event \<Rightarrow> string list" where
  "reported_id (E_resourceDeleted e) = [LogicalResourceId e]"
| "reported_id _ = []"

definition reported_ids :: "event list \<Rightarrow> string list" where
  "reported_ids evs = concat (map reported_id evs)"

section \<open>Sample control planes\<close>

text \<open>
  A control plane on which everything succeeds: the cluster asked for is active and has
  a stack, three services run on EC2 and one on Fargate, there is one task and one
  container instance, the stack's resource \<open>Vpc\<close> is reported deleted from the second
  periodic check on, and the waiter is fulfilled after 35 seconds.
\<close>

definition env_ok :: env where
  "env_ok = \<lparr>
     ecs_describeClusters = (\<lambda>cs. Inr (map (\<lambda>c. \<lparr>clusterName = c, status = ''ACTIVE''\<rparr>) cs)),
     ecs_listServices =
       (\<lambda>c l. Inr (case l of EC2 \<Rightarrow> [''svc-a'', ''svc-b'', ''svc-c''] | FARGATE \<Rightarrow> [''svc-f''])),
     ecs_updateService = (\<lambda>c s n. Inr \<lparr>serviceArn = s, serviceName = s, desiredCount = n\<rparr>),
     ecs_listTasks = (\<lambda>c. Inr [''task-1'']),
     ecs_stopTask = (\<lambda>t c r. Inr \<lparr>taskArn = t\<rparr>),
     ecs_listContainerInstances = (\<lambda>c. Inr [''ci-1'']),
     ecs_deregisterContainerInstance = (\<lambda>c i f. Inr \<lparr>containerInstanceArn = i\<rparr>),
     ecs_deleteService = (\<lambda>c s. Inr \<lparr>serviceArn = s, serviceName = s, desiredCount = 0\<rparr>),
     ecs_deleteCluster = (\<lambda>c. Inr \<lparr>clusterName = c, status = ''INACTIVE''\<rparr>),
     cfn_describeStacks = (\<lambda>n. Inr [\<lparr>StackId = ''id-1'', StackName = n\<rparr>]),
     cfn_deleteStack = (\<lambda>n. Inr ()),
     cfn_describeStackEvents =
       (\<lambda>n k. Inr [\<lparr>EventId = ''ev-1'', LogicalResourceId = ''Vpc'',
                     ResourceStatus = (if 2 \<le> k then ''DELETE_COMPLETE'' else ''DELETE_IN_PROGRESS'')\<rparr>]),
     cfn_waitFor = (\<lambda>i. (35000, Inr [\<lparr>StackId = i, StackName = ''EC2ContainerService-c''\<rparr>]))\<rparr>"

definition cfg_plain :: config where
  "cfg_plain = \<lparr>enableFargate = None\<rparr>"

definition cfg_fargate :: config where
  "cfg_fargate = \<lparr>enableFargate = Some True\<rparr>"

definition this_ec2 :: ClusterCleanup where
  "this_ec2 = fst (ClusterCleanup_constructor (Some cfg_plain))"

definition this_fargate :: ClusterCleanup where
  "this_fargate = fst (ClusterCleanup_constructor (Some cfg_fargate))"


definition quiet :: options where
  "quiet = \<lparr>opt_verbose = None\<rparr>"

definition stack_c :: stack where
  "stack_c = \<lparr>StackId = ''id-1'', StackName = ''EC2ContainerService-c''\<rparr>"

text \<open>The cluster asked for is reported, but as inactive; and not reported at all.\<close>

definition env_inactive :: env where
  "env_inactive = env_ok\<lparr>ecs_describeClusters :=
      (\<lambda>cs. Inr (map (\<lambda>c. \<lparr>clusterName = c, status = ''INACTIVE''\<rparr>) cs))\<rparr>"

definition env_absent :: env where
  "env_absent = env_ok\<lparr>ecs_describeClusters := (\<lambda>cs. Inr [])\<rparr>"



text \<open>The request that deletes the cluster is rejected.\<close>

definition env_cluster_stuck :: env where
  "env_cluster_stuck = env_ok\<lparr>ecs_deleteCluster := (\<lambda>c. Inl (Error ''cluster not empty''))\<rparr>"

text \<open>The waiter is rejected after 15 seconds, between the first and the second check.\<close>

definition env_wait_fails :: env where
  "env_wait_fails = env_ok\<lparr>cfn_waitFor := (\<lambda>i. (15000, Inl (Error ''stack is DELETE_FAILED'')))\<rparr>"


text \<open>
  The stack's history holds two \<open>DELETE_COMPLETE\<close> events of the logical resource
  \<open>Vpc\<close>: an earlier one from the replacement of the resource, and the one of the
  deletion under way.
\<close>

definition env_replaced :: env where
  "env_replaced = env_ok\<lparr>cfn_describeStackEvents :=
      (\<lambda>n k. Inr [\<lparr>EventId = ''ev-7'', LogicalResourceId = ''Vpc'', ResourceStatus = ''DELETE_COMPLETE''\<rparr>,
                   \<lparr>EventId = ''ev-6'', LogicalResourceId = ''Vpc'', ResourceStatus = ''DELETE_IN_PROGRESS''\<rparr>,
                   \<lparr>EventId = ''ev-2'', LogicalResourceId = ''Vpc'', ResourceStatus = ''DELETE_COMPLETE''\<rparr>])\<rparr>"

section \<open>Basic facts about the world\<close>

lemma trace_emit [simp]: "trace (emit e w) = trace w @ [e]"
  by (simp add: emit_def)

lemma calls_emit [simp]: "calls (emit e w) = calls w"
  by (simp add: emit_def)

lemma trace_issue [simp]: "trace (issue c w) = trace w"
  by (simp add: issue_def)

lemma calls_issue [simp]: "calls (issue c w) = calls w @ [c]"
  by (simp add: issue_def)

lemma trace_fold_issue [simp]: "trace (fold (\<lambda>x. issue (g x)) xs w) = trace w"
  by (induction xs arbitrary: w) simp_all

lemma calls_fold_issue [simp]: "calls (fold (\<lambda>x. issue (g x)) xs w) = calls w @ map g xs"
  by (induction xs arbitrary: w) simp_all

lemma trace_log_duration [simp]: "trace (log_duration options cluster w) = trace w"
  by (simp add: log_duration_def)

lemma calls_log_duration [simp]: "calls (log_duration options cluster w) = calls w"
  by (simp add: log_duration_def)

lemma console_emit [simp]: "console (emit e w) = console w"
  by (simp add: emit_def)

lemma console_issue [simp]: "console (issue c w) = console w"
  by (simp add: issue_def)

lemma console_fold_issue [simp]: "console (fold (\<lambda>x. issue (g x)) xs w) = console w"
  by (induction xs arbitrary: w) simp_all


lemma foldl_concat_acc: "foldl (\<lambda>acc r. acc @ r) a xss = a @ concat xss"
  by (induction xss arbitrary: a) simp_all

lemma promise_all_fulfilled:
  "\<forall>x\<in>set xs. f x = Inr (g x) \<Longrightarrow> promise_all (map f xs) = Inr (map g xs)"
  by (induction xs) simp_all



section \<open>What each step leaves unchanged, and what it extends\<close>

lemma untouched_emit [simp]:
  "kind_of e \<noteq> K_clusterDeleted \<Longrightarrow> untouched (emit e w) = untouched w"
  by (simp add: untouched_def)

lemma untouched_issue [simp]:
  "\<not> is_cluster_deletion c \<Longrightarrow> untouched (issue c w) = untouched w"
  by (simp add: untouched_def)

lemma untouched_fold_issue [simp]:
  "\<forall>x. \<not> is_cluster_deletion (g x) \<Longrightarrow> untouched (fold (\<lambda>x. issue (g x)) xs w) = untouched w"
  by (simp add: untouched_def comp_def)

lemma gateway_frames [simp]:
  "untouched (snd (describeCluster env cluster w)) = untouched w"
  "untouched (snd (describeStack env cluster w)) = untouched w"
  "untouched (snd (getAllServicesFor env this cluster w)) = untouched w"
  "untouched (snd (scaleServicesToZero env cluster arns w)) = untouched w"
  "untouched (snd (getAllTasksFor env cluster w)) = untouched w"
  "untouched (snd (stopTasks env cluster arns w)) = untouched w"
  "untouched (snd (getAllInstancesFor env cluster w)) = untouched w"
  "untouched (snd (deregisterContainerInstances env cluster arns w)) = untouched w"
  "untouched (snd (deleteAllServices env cluster names w)) = untouched w"
  "untouched (snd (deleteStack env cluster w)) = untouched w"
  "untouched (snd (describeStackEvents env cluster k w)) = untouched w"
  by (simp_all add: describeCluster_def describeStack_def getAllServicesFor_def
        scaleServicesToZero_def getAllTasksFor_def stopTasks_def getAllInstancesFor_def
        deregisterContainerInstances_def deleteAllServices_def deleteStack_def
        describeStackEvents_def Let_def split: sum.split option.split)

lemma gateway_prefixes [simp]:
  "prefix (trace w) (trace (snd (describeCluster env cluster w)))"
  "prefix (trace w) (trace (snd (describeStack env cluster w)))"
  "prefix (trace w) (trace (snd (getAllServicesFor env this cluster w)))"
  "prefix (trace w) (trace (snd (scaleServicesToZero env cluster arns w)))"
  "prefix (trace w) (trace (snd (getAllTasksFor env cluster w)))"
  "prefix (trace w) (trace (snd (stopTasks env cluster arns w)))"
  "prefix (trace w) (trace (snd (getAllInstancesFor env cluster w)))"
  "prefix (trace w) (trace (snd (deregisterContainerInstances env cluster arns w)))"
  "prefix (trace w) (trace (snd (deleteAllServices env cluster names w)))"
  "prefix (trace w) (trace (snd (deleteStack env cluster w)))"
  "prefix (trace w) (trace (snd (describeStackEvents env cluster k w)))"
  "prefix (trace w) (trace (snd (deleteCluster env cluster w)))"
  by (simp_all add: describeCluster_def describeStack_def getAllServicesFor_def
        scaleServicesToZero_def getAllTasksFor_def stopTasks_def getAllInstancesFor_def
        deregisterContainerInstances_def deleteAllServices_def deleteStack_def
        describeStackEvents_def deleteCluster_def Let_def split: sum.split option.split)


lemma prefix_doesClusterExist [simp]:
  "prefix (trace w) (trace (snd (doesClusterExist env cluster w)))"
  by (simp add: doesClusterExist_def split_def Let_def)

lemma fold_report:
  "fold report es (ad, w) = (ad @ map LogicalResourceId es, w\<lparr>trace := trace w @ map E_resourceDeleted es\<rparr>)"
  by (induction es arbitrary: ad w) (simp_all add: report_def emit_def)

lemma untouched_reports [simp]:
  "untouched (w\<lparr>trace := trace w @ map E_resourceDeleted es\<rparr>) = untouched w"
  by (simp add: untouched_def comp_def)

lemma untouched_pollEvent [simp]:
  "untouched (snd (pollEvent env cluster k st)) = untouched (snd st)"
  by (cases st) (simp add: pollEvent_def split_def Let_def fold_report)

lemma prefix_pollEvent [simp]: "prefix (trace (snd st)) (trace (snd (pollEvent env cluster k st)))"
proof (cases st)
  case (Pair ad w)
  have "prefix (trace w) (trace (snd (describeStackEvents env cluster k w)))"
    by simp
  then show ?thesis
    using Pair by (simp add: pollEvent_def split_def Let_def fold_report)
qed

lemma untouched_polls [simp]:
  "untouched (snd (fold (pollEvent env cluster) ks st)) = untouched (snd st)"
  by (induction ks arbitrary: st) simp_all

lemma prefix_polls [simp]:
  "prefix (trace (snd st)) (trace (snd (fold (pollEvent env cluster) ks st)))"
proof (induction ks arbitrary: st)
  case Nil
  show ?case by simp
next
  case (Cons k ks)
  have "prefix (trace (snd st)) (trace (snd (pollEvent env cluster k st)))"
    by simp
  also have "prefix \<dots> (trace (snd (fold (pollEvent env cluster) ks (pollEvent env cluster k st))))"
    by (rule Cons.IH)
  finally show ?case by simp
qed

lemma untouched_pollCloudFormationForChanges [simp]:
  "untouched (snd (snd (pollCloudFormationForChanges env cluster s w))) = untouched w"
  by (simp add: pollCloudFormationForChanges_def split_def Let_def split: sum.split)

lemma prefix_pollCloudFormationForChanges [simp]:
  "prefix (trace w) (trace (snd (snd (pollCloudFormationForChanges env cluster s w))))"
proof -
  have "prefix (trace (snd ([] :: arn list, issue (WaitForStackDeleteComplete (StackId s)) w)))
          (trace (snd (fold (pollEvent env cluster) ks
                        ([], issue (WaitForStackDeleteComplete (StackId s)) w))))" for ks
    by (rule prefix_polls)
  then show ?thesis
    by (simp add: pollCloudFormationForChanges_def split_def Let_def split: sum.split)
qed

section \<open>Facts about single steps\<close>

lemma doesClusterExist_true:
  assumes "ecs_describeClusters env [cluster] = Inr cs"
      and "\<exists>c\<in>set cs. clusterName c = cluster \<and> status c \<noteq> ''INACTIVE''"
  shows "doesClusterExist env cluster w = (True, issue (DescribeClusters [cluster]) w)"
proof -
  have "filter (\<lambda>c. clusterName c = cluster) (filter (\<lambda>c. status c \<noteq> ''INACTIVE'') cs) \<noteq> []"
    using assms(2) by (auto simp: filter_empty_conv)
  then show ?thesis
    using assms(1) by (simp add: doesClusterExist_def describeCluster_def)
qed


lemma describeStack_answered:
  assumes "cfn_describeStacks env (''EC2ContainerService-'' @ cluster) = Inr (s # others)"
  shows "describeStack env cluster w = (Some s, issue (DescribeStacks (''EC2ContainerService-'' @ cluster)) w)"
  using assms by (simp add: describeStack_def)

lemma getAllServicesFor_fulfilled:
  assumes "launchTypes this = Some lts"
      and "\<forall>l\<in>set lts. ecs_listServices env cluster l = Inr (reply l)"
  shows "getAllServicesFor env this cluster w
           = (concat (map reply lts), fold (\<lambda>l. issue (ListServices cluster l)) lts w)"
  using assms(1) promise_all_fulfilled [OF assms(2)]
  by (simp add: getAllServicesFor_def foldl_concat_acc)



lemma pollEvent_answered:
  assumes "cfn_describeStackEvents env (''EC2ContainerService-'' @ cluster) k = Inr evs"
      and "es = filter (\<lambda>e. LogicalResourceId e \<notin> set ad)
                  (filter (\<lambda>e. ResourceStatus e = ''DELETE_COMPLETE'') evs)"
  shows "pollEvent env cluster k (ad, w)
           = (ad @ map LogicalResourceId es,
              (issue (DescribeStackEvents (''EC2ContainerService-'' @ cluster)) w)
                \<lparr>trace := trace w @ map E_resourceDeleted es\<rparr>)"
  using assms by (simp add: pollEvent_def describeStackEvents_def fold_report Let_def)




lemma poll_failed:
  assumes "cfn_waitFor env (StackId s) = (t, r)" and "TEN_MINUTES \<le> t \<or> isl r"
  shows "\<exists>err. fst (pollCloudFormationForChanges env cluster s w) = Inl err"
    and "TEN_MINUTES \<le> t \<Longrightarrow>
           fst (pollCloudFormationForChanges env cluster s w)
             = Inl (Error ''CloudFormation stack deletion timed out!'')
           \<and> snd (fst (snd (pollCloudFormationForChanges env cluster s w))) = []"
  using assms
  by (auto simp: pollCloudFormationForChanges_def split_def Let_def isl_def split: sum.split)

section \<open>The shape of a run on an existing cluster\<close>

lemma deleteHelper_unfolded:
  assumes "doesClusterExist env cluster (emit (E_start cluster) w) = (True, w2)"
    and "describeStack env cluster w2 = (stack, w3)"
    and "getAllServicesFor env this cluster
           (case stack of Some s \<Rightarrow> emit (E_stackFound s) w3 | None \<Rightarrow> w3) = (foundServices, w5)"
    and "(if length foundServices > 0
          then (let (scaled, wa) = scaleServicesToZero env cluster foundServices
                                     (emit (E_servicesFound foundServices) w5)
                in (scaled, emit (E_servicesScaledDown scaled) wa))
          else ([], w5)) = (services, w6)"
    and "getAllTasksFor env cluster w6 = (foundTasks, w7)"
    and "(if length foundTasks > 0
          then (let (stopped, wa) = stopTasks env cluster foundTasks (emit (E_tasksFound foundTasks) w7)
                in (stopped, emit (E_tasksStopped stopped) wa))
          else ([], w7)) = (tasks, w8)"
    and "getAllInstancesFor env cluster w8 = (foundInstances, w9)"
    and "(if length foundInstances > 0
          then (let (gone, wa) = deregisterContainerInstances env cluster foundInstances
                                   (emit (E_instancesFound foundInstances) w9)
                in (gone, emit (E_instancesDeregistered gone) wa))
          else ([], w9)) = (instances, w10)"
    and "(if length foundServices > 0
          then emit (E_servicesDeleted services)
                 (snd (deleteAllServices env cluster (map serviceName services) w10))
          else w10) = w11"
  shows "deleteHelper env this cluster options w = last_statement env cluster options stack w11"
  unfolding deleteHelper_def assms(1) Let_def prod.case
  apply (simp only: assms(2) prod.case simp_thms if_False)
  apply (simp only: assms(3) prod.case)
  apply (simp only: assms(4)[unfolded Let_def] prod.case)
  apply (simp only: assms(5) prod.case)
  apply (simp only: assms(6)[unfolded Let_def] prod.case)
  apply (simp only: assms(7) prod.case)
  apply (simp only: assms(8)[unfolded Let_def] prod.case)
  apply (simp only: assms(9))
  done

lemma block_frame:
  assumes "(if length found > 0
            then (let (res, wa) = f (emit ev w) in (res, emit (ev' res) wa))
            else ([], w)) = (r, w')"
    and "\<And>v. prefix (trace v) (trace (snd (f v)))"
    and "\<And>v. untouched (snd (f v)) = untouched v"
    and "kind_of ev \<noteq> K_clusterDeleted" and "\<And>r. kind_of (ev' r) \<noteq> K_clusterDeleted"
  shows "prefix (trace w) (trace w') \<and> untouched w' = untouched w"
proof (cases "length found > 0")
  case True
  then have w': "w' = emit (ev' (fst (f (emit ev w)))) (snd (f (emit ev w)))"
    using assms(1) by (auto simp: split_def Let_def)
  have "prefix (trace w) (trace (emit ev w))"
    by simp
  also have "prefix \<dots> (trace (snd (f (emit ev w))))"
    by (rule assms(2))
  finally show ?thesis
    by (simp add: w' assms(3,4,5))
next
  case False
  then show ?thesis using assms(1) by simp
qed

text \<open>
  When the cluster exists, \<open>deleteHelper\<close> is its last statement run in the world the
  earlier statements leave. The service discovery and the scaling block are kept visible.
\<close>

lemma deleteHelper_existing:
  assumes "doesClusterExist env cluster (emit (E_start cluster) w) = (True, w2)"
  obtains stack w3 foundServices w5 services w6 w11 where
    "describeStack env cluster w2 = (stack, w3)"
    "getAllServicesFor env this cluster
       (case stack of Some s \<Rightarrow> emit (E_stackFound s) w3 | None \<Rightarrow> w3) = (foundServices, w5)"
    "(if length foundServices > 0
      then (let (scaled, wa) = scaleServicesToZero env cluster foundServices
                                 (emit (E_servicesFound foundServices) w5)
            in (scaled, emit (E_servicesScaledDown scaled) wa))
      else ([], w5)) = (services, w6)"
    "prefix (trace w3) (trace w5)"
    "prefix (trace w6) (trace w11)"
    "untouched w11 = untouched w3"
    "deleteHelper env this cluster options w = last_statement env cluster options stack w11"
proof -
  obtain stack w3 where e2: "describeStack env cluster w2 = (stack, w3)"
    by (cases "describeStack env cluster w2")
  define w4 where "w4 = (case stack of Some s \<Rightarrow> emit (E_stackFound s) w3 | None \<Rightarrow> w3)"
  obtain foundServices w5 where e3: "getAllServicesFor env this cluster w4 = (foundServices, w5)"
    by (cases "getAllServicesFor env this cluster w4")
  define b4 where "b4 = (if length foundServices > 0
      then (let (scaled, wa) = scaleServicesToZero env cluster foundServices
                                 (emit (E_servicesFound foundServices) w5)
            in (scaled, emit (E_servicesScaledDown scaled) wa))
      else ([], w5))"
  obtain services w6 where "b4 = (services, w6)"
    by (cases b4)
  note e4 = this [unfolded b4_def]
  obtain foundTasks w7 where e5: "getAllTasksFor env cluster w6 = (foundTasks, w7)"
    by (cases "getAllTasksFor env cluster w6")
  define b6 where "b6 = (if length foundTasks > 0
      then (let (stopped, wa) = stopTasks env cluster foundTasks (emit (E_tasksFound foundTasks) w7)
            in (stopped, emit (E_tasksStopped stopped) wa))
      else ([], w7))"
  obtain tasks w8 where "b6 = (tasks, w8)"
    by (cases b6)
  note e6 = this [unfolded b6_def]
  obtain foundInstances w9 where e7: "getAllInstancesFor env cluster w8 = (foundInstances, w9)"
    by (cases "getAllInstancesFor env cluster w8")
  define b8 where "b8 = (if length foundInstances > 0
      then (let (gone, wa) = deregisterContainerInstances env cluster foundInstances
                               (emit (E_instancesFound foundInstances) w9)
            in (gone, emit (E_instancesDeregistered gone) wa))
      else ([], w9))"
  obtain instances w10 where "b8 = (instances, w10)"
    by (cases b8)
  note e8 = this [unfolded b8_def]
  define w11 where "w11 = (if length foundServices > 0
          then emit (E_servicesDeleted services)
                 (snd (deleteAllServices env cluster (map serviceName services) w10))
          else w10)"
  have p4: "prefix (trace w3) (trace w4)" and c4: "untouched w4 = untouched w3"
    by (simp_all add: w4_def split: option.split)
  have p5: "prefix (trace w4) (trace w5)" and c5: "untouched w5 = untouched w4"
    using gateway_prefixes(3) [of w4 env this cluster] gateway_frames(3) [of env this cluster w4]
    by (simp_all add: e3)
  have b6: "prefix (trace w5) (trace w6) \<and> untouched w6 = untouched w5"
    by (rule block_frame [where f = "scaleServicesToZero env cluster foundServices"
          and ev = "E_servicesFound foundServices" and ev' = E_servicesScaledDown, OF e4]) simp_all
  have p7: "prefix (trace w6) (trace w7)" and c7: "untouched w7 = untouched w6"
    using gateway_prefixes(5) [of w6 env cluster] gateway_frames(5) [of env cluster w6]
    by (simp_all add: e5)
  have b8: "prefix (trace w7) (trace w8) \<and> untouched w8 = untouched w7"
    by (rule block_frame [where f = "stopTasks env cluster foundTasks"
          and ev = "E_tasksFound foundTasks" and ev' = E_tasksStopped, OF e6]) simp_all
  have p9: "prefix (trace w8) (trace w9)" and c9: "untouched w9 = untouched w8"
    using gateway_prefixes(7) [of w8 env cluster] gateway_frames(7) [of env cluster w8]
    by (simp_all add: e7)
  have b10: "prefix (trace w9) (trace w10) \<and> untouched w10 = untouched w9"
    by (rule block_frame [where f = "deregisterContainerInstances env cluster foundInstances"
          and ev = "E_instancesFound foundInstances" and ev' = E_instancesDeregistered, OF e8]) simp_all
  have p11: "prefix (trace w10) (trace w11)" and c11: "untouched w11 = untouched w10"
    by (simp_all add: w11_def)
  have "prefix (trace w3) (trace w5)"
    using p4 p5 by (rule prefix_order.order_trans)
  moreover have "prefix (trace w6) (trace w11)"
    using p7 b8 p9 b10 p11 by (meson prefix_order.order_trans)
  moreover have "untouched w11 = untouched w3"
    using c4 c5 b6 c7 b8 c9 b10 c11 by simp
  moreover note deleteHelper_unfolded [OF assms e2 e3 [unfolded w4_def] e4 e5 e6 e7 e8 w11_def [symmetric]]
  ultimately show ?thesis
    using that [OF e2 e3 [unfolded w4_def] e4] by blast
qed

lemma prefix_last_statement:
  "prefix (trace w) (trace (fst (last_statement env cluster options stack w)))"
proof (cases stack)
  case None
  have "prefix (trace w) (trace (snd (deleteCluster env cluster w)))"
    by simp
  then show ?thesis
    using None by (simp add: split_def Let_def)
next
  case (Some s)
  let ?w13 = "emit (E_stackDeletionStarted (StackId s)) (snd (deleteStack env cluster w))"
  let ?w14 = "snd (snd (pollCloudFormationForChanges env cluster s ?w13))"
  have a: "prefix (trace w) (trace ?w14)"
  proof -
    have "prefix (trace w) (trace (snd (deleteStack env cluster w)))"
      by simp
    also have "prefix \<dots> (trace ?w13)"
      by simp
    also have "prefix \<dots> (trace ?w14)"
      by (rule prefix_pollCloudFormationForChanges)
    finally show ?thesis .
  qed
  have b: "prefix (trace w) (trace (snd (deleteCluster env cluster (emit (E_stackDeletionDone (StackId s)) ?w14))))"
  proof -
    note a
    also have "prefix (trace ?w14) (trace (emit (E_stackDeletionDone (StackId s)) ?w14))"
      by simp
    also have "prefix \<dots> (trace (snd (deleteCluster env cluster (emit (E_stackDeletionDone (StackId s)) ?w14))))"
      by (rule gateway_prefixes)
    finally show ?thesis .
  qed
  show ?thesis
    using Some a b by (simp add: split_def Let_def split: sum.split)
qed

lemma console_tail_frames [simp]:
  "console (snd (deleteStack env cluster w)) = console w"
  "console (snd (snd (pollCloudFormationForChanges env cluster s w))) = console w"
  "console (snd (deleteCluster env cluster w)) = console w"
proof -
  have "fst (untouched (snd (deleteStack env cluster w))) = fst (untouched w)"
    by simp
  then show "console (snd (deleteStack env cluster w)) = console w"
    by (simp add: untouched_def)
  have "fst (untouched (snd (snd (pollCloudFormationForChanges env cluster s w)))) = fst (untouched w)"
    by simp
  then show "console (snd (snd (pollCloudFormationForChanges env cluster s w))) = console w"
    by (simp add: untouched_def)
  show "console (snd (deleteCluster env cluster w)) = console w"
    by (simp add: deleteCluster_def Let_def split: sum.split)
qed






section \<open>Evaluation on the sample control planes\<close>

lemmas gateway_defs =
  doesClusterExist_def describeCluster_def describeStack_def getAllServicesFor_def
  scaleServicesToZero_def getAllTasksFor_def stopTasks_def getAllInstancesFor_def
  deregisterContainerInstances_def deleteAllServices_def deleteStack_def
  describeStackEvents_def deleteCluster_def emit_def issue_def

lemmas poller_defs =
  pollCloudFormationForChanges_def pollEvent_def report_def ticks_between_def
  TEN_SECONDS_def TEN_MINUTES_def upt_conv_Cons

lemmas run_defs =
  run_pipeline_def deleteHelper_def log_duration_def Let_def
  this_ec2_def this_fargate_def cfg_plain_def cfg_fargate_def ClusterCleanup_constructor_def
  fresh_object_def quiet_def world0_def

section \<open>C1: partial failure of a mutation step\<close>





section \<open>C2: the entry point\<close>




section \<open>C3: failure of the cluster deletion\<close>

text \<open>
  C3. When the request that deletes the cluster is rejected, \<open>deleteCluster\<close> emits
  \<open>doneWithError\<close> and returns \<open>undefined\<close>; \<open>deleteHelper\<close> goes on and emits
  \<open>clusterDeleted\<close> (carrying no cluster) and \<open>done\<close>. The run below is the sample
  control plane with that one request rejected: two events follow \<open>doneWithError\<close>.
\<close>

theorem events_follow_failed_cluster_deletion:
  "trace (run_pipeline env_cluster_stuck this_ec2 ''c'' quiet world0) =
    [E_start ''c'',
     E_stackFound \<lparr>StackId = ''id-1'', StackName = ''EC2ContainerService-c''\<rparr>,
     E_servicesFound [''svc-a'', ''svc-b'', ''svc-c''],
     E_servicesScaledDown
       [\<lparr>serviceArn = ''svc-a'', serviceName = ''svc-a'', desiredCount = 0\<rparr>,
        \<lparr>serviceArn = ''svc-b'', serviceName = ''svc-b'', desiredCount = 0\<rparr>,
        \<lparr>serviceArn = ''svc-c'', serviceName = ''svc-c'', desiredCount = 0\<rparr>],
     E_tasksFound [''task-1''],
     E_tasksStopped [\<lparr>taskArn = ''task-1''\<rparr>],
     E_instancesFound [''ci-1''],
     E_instancesDeregistered [\<lparr>containerInstanceArn = ''ci-1''\<rparr>],
     E_servicesDeleted
       [\<lparr>serviceArn = ''svc-a'', serviceName = ''svc-a'', desiredCount = 0\<rparr>,
        \<lparr>serviceArn = ''svc-b'', serviceName = ''svc-b'', desiredCount = 0\<rparr>,
        \<lparr>serviceArn = ''svc-c'', serviceName = ''svc-c'', desiredCount = 0\<rparr>],
     E_stackDeletionStarted ''id-1'',
     E_resourceDeleted \<lparr>EventId = ''ev-1'', LogicalResourceId = ''Vpc'', ResourceStatus = ''DELETE_COMPLETE''\<rparr>,
     E_stackDeletionDone ''id-1'',
     E_doneWithError (Error ''cluster not empty''),
     E_clusterDeleted None,
     E_done ''c'']"
  by (simp add: run_defs gateway_defs poller_defs env_cluster_stuck_def env_ok_def)

section \<open>C4: failure of the stack wait\<close>

text \<open>
  C4. When the waiter is rejected before the timeout, its \<open>then\<close> callback does not run
  and the interval timer stays armed. \<open>deleteHelper\<close> emits \<open>doneWithError\<close> and returns,
  and the periodic check goes on until the timeout callback clears it. In the run below
  the waiter is rejected after 15 seconds; the check at 20 seconds finds \<open>Vpc\<close> deleted
  and emits \<open>resourceDeleted\<close> after \<open>doneWithError\<close>.
\<close>

theorem events_follow_failed_stack_wait:
  "trace (run_pipeline env_wait_fails this_ec2 ''c'' quiet world0) =
    [E_start ''c'',
     E_stackFound \<lparr>StackId = ''id-1'', StackName = ''EC2ContainerService-c''\<rparr>,
     E_servicesFound [''svc-a'', ''svc-b'', ''svc-c''],
     E_servicesScaledDown
       [\<lparr>serviceArn = ''svc-a'', serviceName = ''svc-a'', desiredCount = 0\<rparr>,
        \<lparr>serviceArn = ''svc-b'', serviceName = ''svc-b'', desiredCount = 0\<rparr>,
        \<lparr>serviceArn = ''svc-c'', serviceName = ''svc-c'', desiredCount = 0\<rparr>],
     E_tasksFound [''task-1''],
     E_tasksStopped [\<lparr>taskArn = ''task-1''\<rparr>],
     E_instancesFound [''ci-1''],
     E_instancesDeregistered [\<lparr>containerInstanceArn = ''ci-1''\<rparr>],
     E_servicesDeleted
       [\<lparr>serviceArn = ''svc-a'', serviceName = ''svc-a'', desiredCount = 0\<rparr>,
        \<lparr>serviceArn = ''svc-b'', serviceName = ''svc-b'', desiredCount = 0\<rparr>,
        \<lparr>serviceArn = ''svc-c'', serviceName = ''svc-c'', desiredCount = 0\<rparr>],
     E_stackDeletionStarted ''id-1'',
     E_doneWithError (Error ''stack is DELETE_FAILED''),
     E_resourceDeleted \<lparr>EventId = ''ev-1'', LogicalResourceId = ''Vpc'', ResourceStatus = ''DELETE_COMPLETE''\<rparr>]"
  by (simp add: run_defs gateway_defs poller_defs env_wait_fails_def env_ok_def)

text \<open>The timeout is 600 seconds and the periodic check runs every 10 seconds.\<close>

lemma timing_constants: "TEN_MINUTES = 600 * 1000 \<and> TEN_SECONDS = 10 * 1000"
  by (simp add: TEN_MINUTES_def TEN_SECONDS_def)

text \<open>
  A stack wait that fails, or that is still pending at the timeout, keeps the run away
  from the cluster: no request to delete it, no \<open>clusterDeleted\<close> event, no line on the
  console. After a timeout \<open>doneWithError\<close>, with the timeout message, is the last event.
\<close>

lemma failed_stack_wait_leaves_the_cluster:
  assumes ex: "ecs_describeClusters env [cluster] = Inr cs"
              "\<exists>c\<in>set cs. clusterName c = cluster \<and> status c \<noteq> ''INACTIVE''"
    and st: "cfn_describeStacks env (''EC2ContainerService-'' @ cluster) = Inr (s # others)"
    and wait: "cfn_waitFor env (StackId s) = (t, r)" "TEN_MINUTES \<le> t \<or> isl r"
  shows "untouched (run_pipeline env this cluster options w) = untouched w"
    and "TEN_MINUTES \<le> t \<Longrightarrow>
           \<exists>pre. trace (run_pipeline env this cluster options w)
             = trace w @ pre @ [E_doneWithError (Error ''CloudFormation stack deletion timed out!'')]"
proof -
  let ?w2 = "issue (DescribeClusters [cluster]) (emit (E_start cluster) w)"
  have e1: "doesClusterExist env cluster (emit (E_start cluster) w) = (True, ?w2)"
    by (rule doesClusterExist_true [OF ex])
  from deleteHelper_existing [OF e1, of this options]
  obtain stack w3 foundServices w5 services w6 w11 where
    e2: "describeStack env cluster ?w2 = (stack, w3)" and
    e3: "getAllServicesFor env this cluster
       (case stack of Some s \<Rightarrow> emit (E_stackFound s) w3 | None \<Rightarrow> w3) = (foundServices, w5)" and
    e4: "(if length foundServices > 0
      then (let (scaled, wa) = scaleServicesToZero env cluster foundServices
                                 (emit (E_servicesFound foundServices) w5)
            in (scaled, emit (E_servicesScaledDown scaled) wa))
      else ([], w5)) = (services, w6)" and
    p35: "prefix (trace w3) (trace w5)" and
    p611: "prefix (trace w6) (trace w11)" and
    u11: "untouched w11 = untouched w3" and
    dh: "deleteHelper env this cluster options w = last_statement env cluster options stack w11" .
  have stack: "stack = Some s" and w3: "w3 = issue (DescribeStacks (''EC2ContainerService-'' @ cluster)) ?w2"
    using e2 by (simp_all add: describeStack_answered [OF st])
  have u: "untouched w11 = untouched w"
    by (simp add: u11 w3)
  let ?w13 = "emit (E_stackDeletionStarted (StackId s)) (snd (deleteStack env cluster w11))"
  let ?poll = "pollCloudFormationForChanges env cluster s ?w13"
  obtain err where err: "fst ?poll = Inl err"
    using poll_failed(1) [OF wait] by blast
  have ls: "last_statement env cluster options stack w11
              = (emit (E_doneWithError err) (snd (snd ?poll)), fst (snd ?poll))"
    by (simp only: stack option.case Let_def split_def err sum.case)
  have run: "run_pipeline env this cluster options w
      = snd (fold (pollEvent env cluster) (snd (fst (snd ?poll)))
               (fst (fst (snd ?poll)), emit (E_doneWithError err) (snd (snd ?poll))))"
    unfolding run_pipeline_def dh ls by (simp only: split_def Let_def fst_conv snd_conv)
  show "untouched (run_pipeline env this cluster options w) = untouched w"
    by (simp add: run u)
  show "\<exists>pre. trace (run_pipeline env this cluster options w)
             = trace w @ pre @ [E_doneWithError (Error ''CloudFormation stack deletion timed out!'')]"
    if "TEN_MINUTES \<le> t"
  proof -
    have to: "fst ?poll = Inl (Error ''CloudFormation stack deletion timed out!'')"
             "snd (fst (snd ?poll)) = []"
      using poll_failed(2) [OF wait that] by simp_all
    have "prefix (trace w) (trace ?w2)"
      by simp
    also have "prefix \<dots> (trace w3)"
      by (simp add: w3)
    also note p35
    also have "prefix (trace w5) (trace w6)"
      using block_frame [where f = "scaleServicesToZero env cluster foundServices"
          and ev = "E_servicesFound foundServices" and ev' = E_servicesScaledDown, OF e4]
      by simp
    also note p611
    also have "prefix (trace w11) (trace (snd (deleteStack env cluster w11)))"
      by simp
    also have "prefix \<dots> (trace ?w13)"
      by simp
    also have "prefix \<dots> (trace (snd (snd ?poll)))"
      by (rule prefix_pollCloudFormationForChanges)
    finally have "prefix (trace w) (trace (snd (snd ?poll)))" .
    then obtain pre where "trace (snd (snd ?poll)) = trace w @ pre"
      unfolding prefix_def by blast
    moreover have "err = Error ''CloudFormation stack deletion timed out!''"
      using to(1) [unfolded err] by (simp only: sum.inject)
    ultimately have "trace (run_pipeline env this cluster options w)
        = trace w @ pre @ [E_doneWithError (Error ''CloudFormation stack deletion timed out!'')]"
      unfolding run to(2) by simp
    then show ?thesis by (intro exI)
  qed
qed

section \<open>C5: the complete teardown\<close>




section \<open>C6: a cluster that does not exist\<close>

text \<open>
  C6. When the reply to the describe request holds no cluster of the requested name that
  is not \<open>INACTIVE\<close> (the cluster is absent, or present but inactive), the run emits
  exactly \<open>start\<close> and then \<open>doneWithError\<close> with the message that the cluster does not
  exist, and the describe request is the only request it sends: nothing is scaled,
  stopped, deregistered or deleted.
\<close>

theorem missing_cluster_stops_at_once:
  assumes "ecs_describeClusters env [cluster] = Inr cs"
      and "\<forall>c\<in>set cs. clusterName c = cluster \<longrightarrow> status c = ''INACTIVE''"
  shows "trace (run_pipeline env this cluster options w)
           = trace w @ [E_start cluster,
                        E_doneWithError (Error (''Cluster '' @ cluster @ '' does not exist in the region specified''))]
         \<and> calls (run_pipeline env this cluster options w) = calls w @ [DescribeClusters [cluster]]"
proof -
  have "filter (\<lambda>c. clusterName c = cluster) (filter (\<lambda>c. status c \<noteq> ''INACTIVE'') cs) = []"
    using assms(2) by (auto simp: filter_empty_conv)
  then have "doesClusterExist env cluster w' = (False, issue (DescribeClusters [cluster]) w')" for w'
    using assms(1) by (simp add: doesClusterExist_def describeCluster_def)
  then show ?thesis
    by (simp add: run_pipeline_def deleteHelper_def)
qed

theorem missing_cluster_stops_at_once_witness:
  "trace (run_pipeline env_inactive this_ec2 ''c'' quiet world0)
     = [E_start ''c'', E_doneWithError (Error ''Cluster c does not exist in the region specified'')]
   \<and> calls (run_pipeline env_inactive this_ec2 ''c'' quiet world0) = [DescribeClusters [''c'']]
   \<and> trace (run_pipeline env_absent this_ec2 ''c'' quiet world0)
     = [E_start ''c'', E_doneWithError (Error ''Cluster c does not exist in the region specified'')]
   \<and> calls (run_pipeline env_absent this_ec2 ''c'' quiet world0) = [DescribeClusters [''c'']]"
  using missing_cluster_stops_at_once
          [of env_inactive "''c''" "[\<lparr>clusterName = ''c'', status = ''INACTIVE''\<rparr>]" this_ec2 quiet world0]
        missing_cluster_stops_at_once [of env_absent "''c''" "[]" this_ec2 quiet world0]
  by (simp add: env_inactive_def env_absent_def env_ok_def world0_def)

section \<open>C7: launch-type scopes\<close>

text \<open>
  The statement that every discovery step queries each enabled scope does not hold for
  tasks and container instances: with Fargate enabled each of them still sends a single
  request, which names no launch type.
\<close>

theorem task_and_instance_discovery_ignore_scopes:
  "launchTypes this_fargate = Some [EC2, FARGATE]
   \<and> calls (snd (getAllTasksFor env_ok ''c'' world0)) = [ListTasks ''c'']
   \<and> scopes_queried (calls (snd (getAllTasksFor env_ok ''c'' world0))) = []
   \<and> calls (snd (getAllInstancesFor env_ok ''c'' world0)) = [ListContainerInstances ''c'']
   \<and> scopes_queried (calls (snd (getAllInstancesFor env_ok ''c'' world0))) = []
   \<and> scopes_queried (calls (snd (getAllServicesFor env_ok this_fargate ''c'' world0))) = [EC2, FARGATE]"
  by (simp add: run_defs gateway_defs env_ok_def scopes_queried_def)

text \<open>
  C7, amended. Service discovery sends one list request for each enabled launch type,
  \<open>EC2\<close> always and \<open>FARGATE\<close> when the configuration enables it, and, when all are
  answered, returns the replies concatenated in that order. Task discovery and container
  instance discovery each send a single request that names no launch type, whatever is
  enabled.
\<close>

theorem service_discovery_queries_enabled_scopes:
  assumes "ClusterCleanup_constructor (Some c) = (this, Inr ())"
      and "lts = (if enableFargate c = Some True then [EC2, FARGATE] else [EC2])"
      and "\<forall>l\<in>set lts. ecs_listServices env cluster l = Inr (reply l)"
  shows "launchTypes this = Some lts
       \<and> getAllServicesFor env this cluster w
           = (concat (map reply lts), fold (\<lambda>l. issue (ListServices cluster l)) lts w)
       \<and> calls (snd (getAllServicesFor env this cluster w)) = calls w @ map (ListServices cluster) lts
       \<and> calls (snd (getAllTasksFor env cluster w)) = calls w @ [ListTasks cluster]
       \<and> calls (snd (getAllInstancesFor env cluster w)) = calls w @ [ListContainerInstances cluster]"
proof -
  have l: "launchTypes this = Some lts"
    using assms(1,2)
    by (auto simp: ClusterCleanup_constructor_def fresh_object_def Let_def split: if_splits)
  have "calls (snd (getAllTasksFor env cluster w)) = calls w @ [ListTasks cluster]"
    by (simp add: getAllTasksFor_def Let_def split: sum.split)
  moreover have "calls (snd (getAllInstancesFor env cluster w)) = calls w @ [ListContainerInstances cluster]"
    by (simp add: getAllInstancesFor_def Let_def split: sum.split)
  ultimately show ?thesis
    using l by (simp add: getAllServicesFor_fulfilled [OF l assms(3)])
qed

theorem service_discovery_queries_enabled_scopes_witness:
  "ClusterCleanup_constructor (Some cfg_fargate) = (this_fargate, Inr ())
   \<and> fst (getAllServicesFor env_ok this_fargate ''c'' world0) = [''svc-a'', ''svc-b'', ''svc-c'', ''svc-f'']
   \<and> calls (snd (getAllServicesFor env_ok this_fargate ''c'' world0))
       = [ListServices ''c'' EC2, ListServices ''c'' FARGATE]
   \<and> calls (snd (getAllTasksFor env_ok ''c'' world0)) = [ListTasks ''c'']
   \<and> calls (snd (getAllInstancesFor env_ok ''c'' world0)) = [ListContainerInstances ''c'']"
proof -
  have c: "ClusterCleanup_constructor (Some cfg_fargate) = (this_fargate, Inr ())"
    by (simp add: this_fargate_def ClusterCleanup_constructor_def cfg_fargate_def Let_def)
  have r: "\<forall>l\<in>set [EC2, FARGATE]. ecs_listServices env_ok ''c'' l
             = Inr (case l of EC2 \<Rightarrow> [''svc-a'', ''svc-b'', ''svc-c''] | FARGATE \<Rightarrow> [''svc-f''])"
    by (simp add: env_ok_def)
  have f: "[EC2, FARGATE] = (if enableFargate cfg_fargate = Some True then [EC2, FARGATE] else [EC2])"
    by (simp add: cfg_fargate_def)
  show ?thesis
    using service_discovery_queries_enabled_scopes [OF c f r, of world0] c
    by (simp add: world0_def)
qed

section \<open>C8: reports of deleted resources\<close>

text \<open>
  C8. \<open>pollEvent\<close> filters the whole reply against \<open>alreadyDeleted\<close> before it pushes
  any identifier, so two \<open>DELETE_COMPLETE\<close> events of one logical resource in the same
  reply are both emitted: by a single check, and so by one run of the poller.
\<close>

theorem resource_reported_twice_in_one_check:
  "trace (snd (pollEvent env_replaced ''c'' 1 ([], world0))) =
     [E_resourceDeleted \<lparr>EventId = ''ev-7'', LogicalResourceId = ''Vpc'', ResourceStatus = ''DELETE_COMPLETE''\<rparr>,
      E_resourceDeleted \<lparr>EventId = ''ev-2'', LogicalResourceId = ''Vpc'', ResourceStatus = ''DELETE_COMPLETE''\<rparr>]
   \<and> trace (snd (snd (pollCloudFormationForChanges env_replaced ''c'' stack_c world0))) =
     [E_resourceDeleted \<lparr>EventId = ''ev-7'', LogicalResourceId = ''Vpc'', ResourceStatus = ''DELETE_COMPLETE''\<rparr>,
      E_resourceDeleted \<lparr>EventId = ''ev-2'', LogicalResourceId = ''Vpc'', ResourceStatus = ''DELETE_COMPLETE''\<rparr>]"
  by (simp add: run_defs gateway_defs poller_defs env_replaced_def env_ok_def stack_c_def)

lemma reported_ids_simps [simp]:
  "reported_ids [] = []"
  "reported_ids (xs @ ys) = reported_ids xs @ reported_ids ys"
  "reported_ids (map E_resourceDeleted es) = map LogicalResourceId es"
  "reported_ids [E_error e] = []"
  by (simp_all add: reported_ids_def) (induction es, simp_all)

lemma pollEvent_reports_once:
  assumes "\<forall>evs. cfn_describeStackEvents env (''EC2ContainerService-'' @ cluster) k = Inr evs \<longrightarrow>
             distinct (map LogicalResourceId (filter (\<lambda>e. ResourceStatus e = ''DELETE_COMPLETE'') evs))"
  shows "\<exists>evs. trace (snd (pollEvent env cluster k (ad, w))) = trace w @ evs
           \<and> fst (pollEvent env cluster k (ad, w)) = ad @ reported_ids evs
           \<and> (distinct ad \<longrightarrow> distinct (ad @ reported_ids evs))"
proof (cases "cfn_describeStackEvents env (''EC2ContainerService-'' @ cluster) k")
  case (Inl e)
  then have "pollEvent env cluster k (ad, w)
      = (ad, emit (E_error e) (issue (DescribeStackEvents (''EC2ContainerService-'' @ cluster)) w))"
    by (simp add: pollEvent_def describeStackEvents_def Let_def)
  then have "trace (snd (pollEvent env cluster k (ad, w))) = trace w @ [E_error e]
           \<and> fst (pollEvent env cluster k (ad, w)) = ad @ reported_ids [E_error e]
           \<and> (distinct ad \<longrightarrow> distinct (ad @ reported_ids [E_error e]))"
    by simp
  then show ?thesis by (intro exI)
next
  case (Inr evs)
  define es where "es = filter (\<lambda>e. LogicalResourceId e \<notin> set ad)
                          (filter (\<lambda>e. ResourceStatus e = ''DELETE_COMPLETE'') evs)"
  have "distinct (map LogicalResourceId (filter (\<lambda>e. ResourceStatus e = ''DELETE_COMPLETE'') evs))"
    using assms Inr by simp
  then have d: "distinct (map LogicalResourceId es)"
    unfolding es_def by (rule distinct_map_filter)
  have n: "set (map LogicalResourceId es) \<inter> set ad = {}"
    by (auto simp: es_def)
  have "trace (snd (pollEvent env cluster k (ad, w))) = trace w @ map E_resourceDeleted es
           \<and> fst (pollEvent env cluster k (ad, w)) = ad @ reported_ids (map E_resourceDeleted es)
           \<and> (distinct ad \<longrightarrow> distinct (ad @ reported_ids (map E_resourceDeleted es)))"
    using d n by (auto simp: pollEvent_answered [OF Inr es_def])
  then show ?thesis by (intro exI)
qed

text \<open>
  When no single reply lists a logical resource twice as \<open>DELETE_COMPLETE\<close>, the checks of
  one poller, however many and whatever they are answered, report each logical resource
  at most once: \<open>alreadyDeleted\<close> is the list of the identifiers reported so far.
\<close>

lemma polls_report_once:
  assumes "\<forall>k evs. cfn_describeStackEvents env (''EC2ContainerService-'' @ cluster) k = Inr evs \<longrightarrow>
             distinct (map LogicalResourceId (filter (\<lambda>e. ResourceStatus e = ''DELETE_COMPLETE'') evs))"
  shows "\<exists>evs. trace (snd (fold (pollEvent env cluster) ks (ad, w))) = trace w @ evs
           \<and> fst (fold (pollEvent env cluster) ks (ad, w)) = ad @ reported_ids evs
           \<and> (distinct ad \<longrightarrow> distinct (ad @ reported_ids evs))"
proof (induction ks arbitrary: ad w)
  case Nil
  have "trace (snd (fold (pollEvent env cluster) [] (ad, w))) = trace w @ []
           \<and> fst (fold (pollEvent env cluster) [] (ad, w)) = ad @ reported_ids []
           \<and> (distinct ad \<longrightarrow> distinct (ad @ reported_ids []))"
    by simp
  then show ?case by (intro exI)
next
  case (Cons k ks)
  obtain ad1 w1 where st: "pollEvent env cluster k (ad, w) = (ad1, w1)"
    by (cases "pollEvent env cluster k (ad, w)")
  from pollEvent_reports_once [of env cluster k ad w] assms obtain evs1 where
    one: "trace w1 = trace w @ evs1" "ad1 = ad @ reported_ids evs1"
         "distinct ad \<longrightarrow> distinct (ad @ reported_ids evs1)"
    unfolding st by auto
  from Cons.IH [of ad1 w1] obtain evs2 where
    two: "trace (snd (fold (pollEvent env cluster) ks (ad1, w1))) = trace w1 @ evs2"
         "fst (fold (pollEvent env cluster) ks (ad1, w1)) = ad1 @ reported_ids evs2"
         "distinct ad1 \<longrightarrow> distinct (ad1 @ reported_ids evs2)"
    by blast
  have "trace (snd (fold (pollEvent env cluster) (k # ks) (ad, w))) = trace w @ (evs1 @ evs2)
           \<and> fst (fold (pollEvent env cluster) (k # ks) (ad, w)) = ad @ reported_ids (evs1 @ evs2)
           \<and> (distinct ad \<longrightarrow> distinct (ad @ reported_ids (evs1 @ evs2)))"
    using one two by (simp add: st)
  then show ?case by (intro exI)
qed

lemma poller_reports_once:
  assumes "\<forall>k evs. cfn_describeStackEvents env (''EC2ContainerService-'' @ cluster) k = Inr evs \<longrightarrow>
             distinct (map LogicalResourceId (filter (\<lambda>e. ResourceStatus e = ''DELETE_COMPLETE'') evs))"
  shows "\<exists>evs. trace (snd (snd (pollCloudFormationForChanges env cluster s w))) = trace w @ evs
           \<and> distinct (reported_ids evs)"
proof -
  let ?w1 = "issue (WaitForStackDeleteComplete (StackId s)) w"
  let ?ks = "ticks_between 0 (min (fst (cfn_waitFor env (StackId s))) TEN_MINUTES)"
  from polls_report_once [OF assms, of ?ks "[]" ?w1] obtain evs where
    "trace (snd (fold (pollEvent env cluster) ?ks ([], ?w1))) = trace ?w1 @ evs"
    "distinct (reported_ids evs)"
    by auto
  then have "trace (snd (snd (pollCloudFormationForChanges env cluster s w))) = trace w @ evs
           \<and> distinct (reported_ids evs)"
    by (cases "fst (cfn_waitFor env (StackId s)) < TEN_MINUTES")
       (simp_all add: pollCloudFormationForChanges_def split_def Let_def min_def split: sum.split)
  then show ?thesis by (intro exI)
qed

section \<open>C9: stack naming\<close>

text \<open>
  C9. For every cluster name \<open>X\<close>, describing the stack, deleting the stack and reading the
  stack's events each send exactly one request, and it names the stack
  \<open>EC2ContainerService-X\<close>: the fixed prefix followed by the cluster name, unchanged.
\<close>

theorem stack_operations_use_conventional_name:
  "calls (snd (describeStack env X w)) = calls w @ [DescribeStacks (''EC2ContainerService-'' @ X)]
   \<and> calls (snd (deleteStack env X w)) = calls w @ [DeleteStack (''EC2ContainerService-'' @ X)]
   \<and> calls (snd (describeStackEvents env X k w))
       = calls w @ [DescribeStackEvents (''EC2ContainerService-'' @ X)]"
  by (simp add: describeStack_def deleteStack_def describeStackEvents_def Let_def
        split: sum.split list.split)

section \<open>C10: construction without a configuration\<close>

text \<open>
  The statement that the constructor throws before any member is assigned does not hold:
  when \<open>config\<close> is \<open>undefined\<close>, the clients and \<open>launchTypes\<close> have been assigned by the
  time reading \<open>config.enableFargate\<close> raises the \<open>TypeError\<close>.
\<close>

theorem constructor_throws_after_assignments:
  "snd (ClusterCleanup_constructor None) = Inl TypeError
   \<and> ecs (fst (ClusterCleanup_constructor None)) = Some (ECS_client None)
   \<and> launchTypes (fst (ClusterCleanup_constructor None)) = Some [EC2]
   \<and> snd (ECSClusterManager_constructor None) = Inl TypeError
   \<and> mgr_ecs (fst (ECSClusterManager_constructor None)) = Some (ECS_client None)
   \<and> mgr_launchTypes (fst (ECSClusterManager_constructor None)) = Some [EC2]"
  by (simp add: ClusterCleanup_constructor_def ECSClusterManager_constructor_def fresh_object_def)

text \<open>
  C10, amended. Constructing either class without a configuration fails with a
  \<open>TypeError\<close>, raised by the read of \<open>config.enableFargate\<close> after the members that
  precede it have been assigned (\<open>ecs\<close>, \<open>cloudFormation\<close>, \<open>launchTypes\<close> and \<open>events\<close>
  in \<open>ClusterCleanup\<close>; \<open>ecs\<close> and \<open>launchTypes\<close> in \<open>ECSClusterManager\<close>); no
  instance reaches the caller. With any configuration object the constructor returns.
\<close>

theorem constructor_without_config:
  "ClusterCleanup_constructor None
     = (\<lparr>ecs = Some (ECS_client None), cloudFormation = Some (CloudFormation_client None),
         launchTypes = Some [EC2], events = Some ClusterCleanupEventEmitter\<rparr>, Inl TypeError)
   \<and> ECSClusterManager_constructor None
     = (\<lparr>mgr_ecs = Some (ECS_client None), mgr_launchTypes = Some [EC2]\<rparr>, Inl TypeError)
   \<and> snd (ClusterCleanup_constructor (Some c)) = Inr ()
   \<and> snd (ECSClusterManager_constructor (Some c)) = Inr ()"
  by (simp add: ClusterCleanup_constructor_def ECSClusterManager_constructor_def fresh_object_def
        Let_def)

end
